theory Spec2Isabelle
  imports Main "HOL-Library.Word" "HOL-Library.AList"
begin

unbundle bit_operations_syntax

section \<open>Python values, dictionaries and exceptions\<close>

text \<open>
  The values that flow through \<^verbatim>\<open>vumi/transports/smpp/smpp_transport.py\<close>:
  \<^verbatim>\<open>None\<close>, strings, dictionaries with string keys, and objects (modules, classes,
  instances) of which only the attributes are observed. A dictionary is an association
  list read with \<open>map_of\<close> and written with \<open>AList.update\<close>.
\<close>

datatype pyval =
    PyNone
  | PyStr string
  | PyDict "(string \<times> pyval) list"
  | PyObj "(string \<times> pyval) list"

type_synonym dict = "(string \<times> pyval) list"

text \<open>The exceptions the module can raise by itself; \<open>Raised\<close> is any exception a
  collaborator raises synchronously.\<close>

datatype error =
    KeyError pyval
  | NameError string
  | AttributeError string
  | TypeError string
  | Raised string

text \<open>\<^verbatim>\<open>d[k]\<close> for a keyword-argument dictionary: a missing key raises \<^verbatim>\<open>KeyError\<close>.\<close>

definition getitem :: "dict \<Rightarrow> string \<Rightarrow> error + pyval" where
  "getitem d k = (case map_of d k of None \<Rightarrow> Inl (KeyError (PyStr k)) | Some v \<Rightarrow> Inr v)"

text \<open>\<^verbatim>\<open>d.get(k, default)\<close>.\<close>

definition get_default :: "dict \<Rightarrow> string \<Rightarrow> pyval \<Rightarrow> pyval" where
  "get_default d k dflt = (case map_of d k of None \<Rightarrow> dflt | Some v \<Rightarrow> v)"

text \<open>
  \<^verbatim>\<open>d[v]\<close> where the subscript is any value: a dictionary is unhashable
  (\<^verbatim>\<open>TypeError\<close>), \<^verbatim>\<open>None\<close> and objects are hashable but are not among the string keys.
\<close>

fun subscript :: "dict \<Rightarrow> pyval \<Rightarrow> error + pyval" where
  "subscript d (PyStr k) = getitem d k"
| "subscript d (PyDict x) = Inl (TypeError ''unhashable type: dict'')"
| "subscript d v = Inl (KeyError v)"

text \<open>A global name of the module, and an attribute of an object.\<close>

definition lookup_global :: "(string \<rightharpoonup> pyval) \<Rightarrow> string \<Rightarrow> error + pyval" where
  "lookup_global g n = (case g n of None \<Rightarrow> Inl (NameError n) | Some v \<Rightarrow> Inr v)"

fun getattr :: "pyval \<Rightarrow> string \<Rightarrow> error + pyval" where
  "getattr (PyObj attrs) a =
     (case map_of attrs a of None \<Rightarrow> Inl (AttributeError a) | Some v \<Rightarrow> Inr v)"
| "getattr v a = Inl (AttributeError a)"

section \<open>Deferreds and the random source\<close>

text \<open>
  A Twisted \<^verbatim>\<open>Deferred\<close> as \<^verbatim>\<open>publish_message\<close> returns it: it carries a result or a
  failure.
\<close>

datatype deferred = Fired pyval | Errback string

text \<open>
  What a call changes outside its return value: how many 16-byte blocks have been drawn
  from the operating system's random source, the messages handed to
  \<^verbatim>\<open>publish_message\<close> (oldest first), and the failures written by \<^verbatim>\<open>log.err\<close>.
\<close>

record world =
  drawn :: nat
  published :: "dict list"
  err_log :: "string list"

text \<open>
  What the transport is run with: the module's global namespace, the random source
  (block \<open>n\<close> of \<^verbatim>\<open>os.urandom(16)\<close>, as a 128-bit big-endian number), and
  \<^verbatim>\<open>Transport.publish_message\<close> of the base class, which is not part of this module:
  it raises, or returns a Deferred.
\<close>

record shell =
  globals :: "string \<rightharpoonup> pyval"
  urandom :: "nat \<Rightarrow> 128 word"
  publish_message :: "dict \<Rightarrow> error + deferred"

text \<open>
  \<^verbatim>\<open>uuid4()\<close> of the standard library: 16 random bytes with the variant bits set to
  RFC 4122 and the version nibble set to 4; \<^verbatim>\<open>.hex\<close> is \<^verbatim>\<open>'%032x' % int\<close>.
\<close>

definition uuid4_int :: "128 word \<Rightarrow> 128 word" where
  "uuid4_int r =
     (((r AND NOT (push_bit 48 0xc000)) OR push_bit 48 0x8000)
        AND NOT (push_bit 64 0xf000)) OR push_bit 76 4"

text \<open>The six bits \<^verbatim>\<open>uuid4\<close> overwrites: the variant (62, 63) and the version (76 to 79).\<close>

definition overwritten_bits :: "128 word" where
  "overwritten_bits = push_bit 48 0xc000 OR push_bit 64 0xf000"

definition hex_digit :: "nat \<Rightarrow> char" where
  "hex_digit d = ''0123456789abcdef'' ! d"

fun hex_of :: "nat \<Rightarrow> nat \<Rightarrow> string" where
  "hex_of 0 v = []"
| "hex_of (Suc n) v = hex_of n (v div 16) @ [hex_digit (v mod 16)]"

definition uuid_hex :: "128 word \<Rightarrow> string" where
  "uuid_hex u = hex_of 32 (unat u)"

definition uuid4_hex :: "shell \<Rightarrow> world \<Rightarrow> string \<times> world" where
  "uuid4_hex sh w =
     (uuid_hex (uuid4_int (urandom sh (drawn w))), w\<lparr>drawn := Suc (drawn w)\<rparr>)"

text \<open>
  \<^verbatim>\<open>d.addErrback(log.err)\<close>: a failure is logged and replaced by the value
  \<^verbatim>\<open>log.err\<close> returns, \<^verbatim>\<open>None\<close>; a result passes through.
\<close>

definition addErrback_log_err :: "deferred \<Rightarrow> world \<Rightarrow> deferred \<times> world" where
  "addErrback_log_err d w =
     (case d of
        Fired v \<Rightarrow> (Fired v, w)
      | Errback f \<Rightarrow> (Fired PyNone, w\<lparr>err_log := err_log w @ [f]\<rparr>))"

section \<open>SmppTransport.handle_raw_inbound_message\<close>

text \<open>
  The dictionary literal of lines 83 to 87 and its subscript: the three constants are
  read from the global \<^verbatim>\<open>TransportUserMessage\<close> first, in the order written, then
  \<^verbatim>\<open>kwargs['session_event']\<close> is read and looked up.
\<close>

definition session_event_of :: "(string \<rightharpoonup> pyval) \<Rightarrow> dict \<Rightarrow> error + pyval" where
  "session_event_of g kwargs =
     (case lookup_global g ''TransportUserMessage'' of Inl e \<Rightarrow> Inl e | Inr tum \<Rightarrow>
     (case getattr tum ''SESSION_NEW'' of Inl e \<Rightarrow> Inl e | Inr new \<Rightarrow>
     (case getattr tum ''SESSION_RESUME'' of Inl e \<Rightarrow> Inl e | Inr resume \<Rightarrow>
     (case getattr tum ''SESSION_CLOSE'' of Inl e \<Rightarrow> Inl e | Inr close \<Rightarrow>
     (case getitem kwargs ''session_event'' of Inl e \<Rightarrow> Inl e | Inr ind \<Rightarrow>
        subscript [(''new'', new), (''continue'', resume), (''close'', close)] ind)))))"

text \<open>\<^verbatim>\<open>message['transport_metadata']['session_info'] = session_info\<close>.\<close>

definition set_session_info :: "dict \<Rightarrow> pyval \<Rightarrow> error + dict" where
  "set_session_info message si =
     (case getitem message ''transport_metadata'' of
        Inl e \<Rightarrow> Inl e
      | Inr (PyDict md) \<Rightarrow>
          Inr (AList.update ''transport_metadata''
                 (PyDict (AList.update ''session_info'' si md)) message)
      | Inr v \<Rightarrow> Inl (TypeError ''object does not support item assignment''))"

text \<open>Lines 72 to 90: the message dictionary, given the identifier already generated.\<close>

definition build_message :: "(string \<rightharpoonup> pyval) \<Rightarrow> dict \<Rightarrow> string \<Rightarrow> error + dict" where
  "build_message g kwargs mid =
     (let message_type = get_default kwargs ''message_type'' (PyStr ''sms'') in
     (case getitem kwargs ''destination_addr'' of Inl e \<Rightarrow> Inl e | Inr to_addr \<Rightarrow>
     (case getitem kwargs ''source_addr'' of Inl e \<Rightarrow> Inl e | Inr from_addr \<Rightarrow>
     (case getitem kwargs ''short_message'' of Inl e \<Rightarrow> Inl e | Inr content \<Rightarrow>
       (let message =
              [(''message_id'', PyStr mid),
               (''to_addr'', to_addr),
               (''from_addr'', from_addr),
               (''content'', content),
               (''transport_type'', message_type),
               (''transport_metadata'', PyDict [])]
        in if message_type = PyStr ''ussd''
           then (case session_event_of g kwargs of
                   Inl e \<Rightarrow> Inl e
                 | Inr session_event \<Rightarrow>
                     set_session_info
                       (AList.update ''session_event'' session_event message)
                       (get_default kwargs ''session_info'' PyNone))
           else Inr message)))))"

text \<open>
  The whole method: the identifier is drawn first (it is the first item of the
  dictionary literal), the message is built, handed to \<^verbatim>\<open>publish_message\<close>, and the
  Deferred that comes back gets \<^verbatim>\<open>log.err\<close> as its errback.
\<close>

definition handle_raw_inbound_message ::
    "shell \<Rightarrow> dict \<Rightarrow> world \<Rightarrow> (error + deferred) \<times> world" where
  "handle_raw_inbound_message sh kwargs w =
     (case uuid4_hex sh w of (mid, w1) \<Rightarrow>
       (case build_message (globals sh) kwargs mid of
          Inl e \<Rightarrow> (Inl e, w1)
        | Inr message \<Rightarrow>
            (let w2 = w1\<lparr>published := published w1 @ [message]\<rparr> in
              (case publish_message sh message of
                 Inl e \<Rightarrow> (Inl e, w2)
               | Inr d \<Rightarrow> (case addErrback_log_err d w2 of (d', w3) \<Rightarrow> (Inr d', w3))))))"

text \<open>
  The names the module binds at its top level (its imports and its three classes).
  \<^verbatim>\<open>TransportUserMessage\<close> is not among them, and it is no builtin.
\<close>

definition module_names :: "string list" where
  "module_names =
     [''uuid4'', ''reactor'', ''inlineCallbacks'', ''ReconnectingClientService'',
      ''Transport'', ''SmppTransportConfig'', ''EsmeConfig'', ''EsmeTransceiverFactory'',
      ''RedisSequence'', ''TxRedisManager'', ''log'', ''SmppTransceiverProtocol'',
      ''SmppTransportClientFactory'', ''SmppTransport'']"

definition smpp_transport_globals :: "string \<rightharpoonup> pyval" where
  "smpp_transport_globals n = (if n \<in> set module_names then Some (PyObj []) else None)"

text \<open>The messages a call has handed to \<^verbatim>\<open>publish_message\<close>.\<close>

definition produced :: "shell \<Rightarrow> dict \<Rightarrow> world \<Rightarrow> dict list" where
  "produced sh kwargs w =
     drop (length (published w)) (published (snd (handle_raw_inbound_message sh kwargs w)))"

section \<open>SmppTransport.setup_transport: the sequence partition\<close>




text \<open>
  Modelled from the spec: \<^verbatim>\<open>TxRedisManager.sub_manager\<close> and \<^verbatim>\<open>RedisSequence\<close> are not
  among the sources. The spec's Sequence Allocator keeps one durable counter per
  partition key (\<open>SequenceCounter = {partition_key, last_value}\<close>); \<open>allocate\<close>
  increments the counter of its key and returns it, wrapping from \<open>2^31 - 1\<close> back to 1.
\<close>

type_synonym counters = "string \<Rightarrow> nat"

definition allocate :: "string \<Rightarrow> counters \<Rightarrow> nat \<times> counters" where
  "allocate partition_key st =
     (let v = (if st partition_key \<ge> 2 ^ 31 - 1 then 1 else Suc (st partition_key))
      in (v, st(partition_key := v)))"





section \<open>SmppTransport.start_service and teardown_transport\<close>

text \<open>
  Modelled from the spec: \<^verbatim>\<open>ReconnectingClientService\<close> (the Connection Supervisor) is
  not among the sources. Per the spec, \<open>start()\<close> begins attempting connections; on a
  connect failure or a lost connection it schedules a retry; exactly one attempt or one
  live connection exists at a time; \<open>stop()\<close> is idempotent, cancels an attempt in
  progress and guarantees that no further attempt is made. \<open>attempts\<close> counts the
  connection attempts made so far.
\<close>

datatype link = NoLink | Attempting | Live | RetryPending

record service =
  running :: bool
  link :: link
  attempts :: nat

datatype event = ConnectSucceeded | ConnectFailed | ConnectionLost | RetryDue

definition startService :: "service \<Rightarrow> service" where
  "startService s =
     (if running s then s
      else s\<lparr>running := True, link := Attempting, attempts := Suc (attempts s)\<rparr>)"

definition stopService :: "service \<Rightarrow> service" where
  "stopService s = s\<lparr>running := False, link := NoLink\<rparr>"

fun on_event :: "service \<Rightarrow> event \<Rightarrow> service" where
  "on_event s e =
     (if \<not> running s then s
      else case (e, link s) of
        (ConnectSucceeded, Attempting) \<Rightarrow> s\<lparr>link := Live\<rparr>
      | (ConnectFailed, Attempting) \<Rightarrow> s\<lparr>link := RetryPending\<rparr>
      | (ConnectionLost, Live) \<Rightarrow> s\<lparr>link := RetryPending\<rparr>
      | (RetryDue, RetryPending) \<Rightarrow> s\<lparr>link := Attempting, attempts := Suc (attempts s)\<rparr>
      | _ \<Rightarrow> s)"

text \<open>
  The attributes of the transport that \<^verbatim>\<open>start_service\<close> and
  \<^verbatim>\<open>teardown_transport\<close> touch: \<^verbatim>\<open>self.service\<close> (\<^verbatim>\<open>None\<close> stands for a false
  value), the connection of \<^verbatim>\<open>self.redis\<close>, and the calls made on the two
  collaborators, in order.
\<close>

datatype call = StartService | StopService | RedisClose

record transport =
  service :: "service option"
  redis_connected :: bool
  calls :: "call list"

text \<open>
  Modelled from the spec: \<^verbatim>\<open>TxRedisManager._close\<close> is not among the sources, and the
  spec gives closing the store no failure mode: the connection is marked closed.
\<close>

definition redis_close :: "transport \<Rightarrow> transport" where
  "redis_close t = t\<lparr>redis_connected := False, calls := calls t @ [RedisClose]\<rparr>"

text \<open>Lines 57 to 61: a new service is made and started.\<close>

definition start_service :: "transport \<Rightarrow> service \<times> transport" where
  "start_service t =
     (startService \<lparr>running = False, link = NoLink, attempts = 0\<rparr>,
      t\<lparr>calls := calls t @ [StartService]\<rparr>)"

text \<open>Lines 63 to 67: the service, if there is one, is stopped; then the store is
  closed. \<^verbatim>\<open>self.service\<close> is not reset.\<close>

definition teardown_transport :: "transport \<Rightarrow> transport" where
  "teardown_transport t =
     (let t1 = (case service t of
                  None \<Rightarrow> t
                | Some s \<Rightarrow> t\<lparr>service := Some (stopService s), calls := calls t @ [StopService]\<rparr>)
      in redis_close t1)"

text \<open>A transport as \<^verbatim>\<open>setup_transport\<close> leaves it (line 55).\<close>

definition started_transport :: transport where
  "started_transport =
     (case start_service \<lparr>service = None, redis_connected = True, calls = []\<rparr> of
        (s, t) \<Rightarrow> t\<lparr>service := Some s\<rparr>)"

section \<open>SmppTransceiverProtocol and SmppTransportClientFactory\<close>

text \<open>
  Modelled from the spec: the base protocol \<^verbatim>\<open>EsmeTransceiverFactory.protocol\<close> and its
  \<^verbatim>\<open>bind\<close> are not among the sources. The spec's Session has the states UNBOUND,
  BINDING, BOUND, UNBINDING and DEAD, is created UNBOUND when a Connection opens, and
  goes from UNBOUND to BINDING by sending a bind_transceiver PDU built from the
  configured credentials and starting a bind-response timer. The spec gives the bind no
  transition from another state.
\<close>

datatype session_state = UNBOUND | BINDING | BOUND | UNBINDING | DEAD

record credentials =
  bind_system_id :: string
  password :: string
  system_type :: string

datatype pdu = Bind_transceiver credentials | Other_pdu string

record session =
  state :: session_state
  bind_credentials :: credentials
  sent :: "pdu list"
  bind_timer_running :: bool

definition bind_session :: "session \<Rightarrow> error + session" where
  "bind_session s =
     (if state s = UNBOUND
      then Inr (s\<lparr>state := BINDING, sent := sent s @ [Bind_transceiver (bind_credentials s)],
                 bind_timer_running := True\<rparr>)
      else Inl (Raised ''no transition''))"

text \<open>
  A class, as far as its methods go: what each method name resolves to on it. Calling a
  method that does not resolve raises \<^verbatim>\<open>AttributeError\<close>.
\<close>

type_synonym py_method = "session \<Rightarrow> error + session"
type_synonym pyclass = "string \<rightharpoonup> py_method"

definition call_method :: "pyclass \<Rightarrow> string \<Rightarrow> session \<Rightarrow> error + session" where
  "call_method cls name self =
     (case cls name of None \<Rightarrow> Inl (AttributeError name) | Some m \<Rightarrow> m self)"

text \<open>
  Lines 20 to 23: the class body of \<^verbatim>\<open>SmppTransceiverProtocol\<close> defines
  \<^verbatim>\<open>onConnectionMade\<close> alone, so every other name, \<^verbatim>\<open>bind\<close> among them, resolves as on
  the base; \<^verbatim>\<open>onConnectionMade\<close> returns \<^verbatim>\<open>self.bind()\<close>.
\<close>

definition SmppTransceiverProtocol :: "pyclass \<Rightarrow> pyclass" where
  "SmppTransceiverProtocol base =
     base(''onConnectionMade'' \<mapsto> (\<lambda>self. call_method base ''bind'' self))"

text \<open>Lines 26 and 27: the factory of the transport builds that protocol for a
  connection.\<close>

record factory =
  protocol :: pyclass

definition SmppTransportClientFactory :: "factory \<Rightarrow> factory" where
  "SmppTransportClientFactory EsmeTransceiverFactory =
     EsmeTransceiverFactory\<lparr>protocol := SmppTransceiverProtocol (protocol EsmeTransceiverFactory)\<rparr>"

text \<open>A base factory whose protocol has the spec's \<^verbatim>\<open>bind\<close> and nothing else, and a
  session on a connection that has just opened.\<close>

definition base_factory :: factory where
  "base_factory = \<lparr>protocol = [''bind'' \<mapsto> bind_session]\<rparr>"

definition new_session :: session where
  "new_session =
     \<lparr>state = UNBOUND,
      bind_credentials = \<lparr>bind_system_id = ''vumitest'', password = ''secret'', system_type = ''''\<rparr>,
      sent = [], bind_timer_running = False\<rparr>"

section \<open>Concrete inputs\<close>

text \<open>Concrete inputs: a shell whose random source returns zero blocks and whose
  \<^verbatim>\<open>publish_message\<close> succeeds, a fresh world, and keyword arguments as the short
  message processor passes them.\<close>

definition example_shell :: shell where
  "example_shell =
     \<lparr>globals = smpp_transport_globals, urandom = (\<lambda>n. 0),
      publish_message = (\<lambda>m. Inr (Fired PyNone))\<rparr>"

definition failing_shell :: shell where
  "failing_shell = example_shell\<lparr>publish_message := (\<lambda>m. Inr (Errback ''not serializable''))\<rparr>"

text \<open>A shell whose \<^verbatim>\<open>publish_message\<close> raises instead of returning a Deferred.\<close>

definition raising_shell :: shell where
  "raising_shell =
     example_shell\<lparr>publish_message := (\<lambda>m. Inl (Raised ''invalid message field''))\<rparr>"

text \<open>A random source whose block \<open>n\<close> is the number \<open>n\<close>.\<close>

definition counting_shell :: shell where
  "counting_shell = example_shell\<lparr>urandom := of_nat\<rparr>"

definition world0 :: world where
  "world0 = \<lparr>drawn = 0, published = [], err_log = []\<rparr>"

definition sms_kwargs :: dict where
  "sms_kwargs =
     [(''destination_addr'', PyStr ''2772222222''), (''source_addr'', PyStr ''2772000000''),
      (''short_message'', PyStr ''hello'')]"

definition ussd_kwargs :: "string \<Rightarrow> dict" where
  "ussd_kwargs ind =
     [(''message_type'', PyStr ''ussd''), (''session_event'', PyStr ind),
      (''destination_addr'', PyStr ''2772222222''), (''source_addr'', PyStr ''2772000000''),
      (''short_message'', PyStr ''hello'')]"

definition ussd_kwargs_no_indicator :: dict where
  "ussd_kwargs_no_indicator =
     [(''message_type'', PyStr ''ussd''),
      (''destination_addr'', PyStr ''2772222222''), (''source_addr'', PyStr ''2772000000''),
      (''short_message'', PyStr ''hello'')]"

definition typed_kwargs :: "string \<Rightarrow> dict" where
  "typed_kwargs t = (''message_type'', PyStr t) # sms_kwargs"

text \<open>The message the call on \<open>sms_kwargs\<close> builds when the random block is zero.\<close>

definition sms_message :: dict where
  "sms_message =
     [(''message_id'', PyStr (uuid_hex (uuid4_int 0))), (''to_addr'', PyStr ''2772222222''),
      (''from_addr'', PyStr ''2772000000''), (''content'', PyStr ''hello''),
      (''transport_type'', PyStr ''sms''), (''transport_metadata'', PyDict [])]"

text \<open>
  Modelled from the spec: the class \<^verbatim>\<open>TransportUserMessage\<close> of \<^verbatim>\<open>vumi.message\<close> is not
  among the sources; the spec gives a canonical message's session event the values new,
  resume and close. This is the namespace the module would have with the class imported.
\<close>

definition vumi_TransportUserMessage :: pyval where
  "vumi_TransportUserMessage =
     PyObj [(''SESSION_NEW'', PyStr ''new''), (''SESSION_RESUME'', PyStr ''resume''),
            (''SESSION_CLOSE'', PyStr ''close'')]"

definition globals_with_import :: "string \<rightharpoonup> pyval" where
  "globals_with_import =
     smpp_transport_globals(''TransportUserMessage'' \<mapsto> vumi_TransportUserMessage)"

section \<open>Properties of handle_raw_inbound_message\<close>


lemma produced_cases:
  "produced sh kwargs w =
     (case build_message (globals sh) kwargs (fst (uuid4_hex sh w)) of
        Inl e \<Rightarrow> [] | Inr message \<Rightarrow> [message])"
  by (simp add: produced_def handle_raw_inbound_message_def uuid4_hex_def
      addErrback_log_err_def Let_def split: sum.splits deferred.splits)


lemma produced_sms_kwargs:
  "urandom sh 0 = 0 \<Longrightarrow> produced sh sms_kwargs world0 = [sms_message]"
  by (simp add: produced_cases uuid4_hex_def world0_def build_message_def getitem_def
      get_default_def sms_kwargs_def sms_message_def Let_def)



text \<open>
  C1. In the module as it is, the name \<^verbatim>\<open>TransportUserMessage\<close> is not bound: an inbound
  USSD message with the indicator \<open>new\<close> ends in a \<^verbatim>\<open>NameError\<close>, and no message with a
  session event is produced.
\<close>

theorem C1_ussd_new_raises_NameError:
  "fst (handle_raw_inbound_message (sh\<lparr>globals := smpp_transport_globals\<rparr>)
          (ussd_kwargs ''new'') w) = Inl (NameError ''TransportUserMessage'')
   \<and> produced (sh\<lparr>globals := smpp_transport_globals\<rparr>) (ussd_kwargs ''new'') w = []"
  by (simp add: produced_cases handle_raw_inbound_message_def uuid4_hex_def
      build_message_def session_event_of_def lookup_global_def smpp_transport_globals_def
      module_names_def getitem_def get_default_def ussd_kwargs_def Let_def)

text \<open>With \<^verbatim>\<open>TransportUserMessage\<close> imported, the indicator \<open>continue\<close> is mapped to
  \<open>resume\<close> and stored on the message.\<close>

lemma ussd_mapping_with_import:
  "produced (example_shell\<lparr>globals := globals_with_import\<rparr>) (ussd_kwargs ''continue'') world0
     = [[(''message_id'', PyStr (uuid_hex (uuid4_int 0))), (''to_addr'', PyStr ''2772222222''),
      (''from_addr'', PyStr ''2772000000''), (''content'', PyStr ''hello''),
      (''transport_type'', PyStr ''ussd''),
      (''transport_metadata'', PyDict [(''session_info'', PyNone)]),
      (''session_event'', PyStr ''resume'')]]"
  by (simp add: produced_cases uuid4_hex_def example_shell_def world0_def
      build_message_def session_event_of_def lookup_global_def smpp_transport_globals_def
      module_names_def getitem_def get_default_def ussd_kwargs_def Let_def
      vumi_TransportUserMessage_def globals_with_import_def set_session_info_def)

lemma session_event_of_unrecognized:
  assumes "map_of kwargs ''session_event'' \<notin>
             {Some (PyStr ''new''), Some (PyStr ''continue''), Some (PyStr ''close'')}"
  shows "\<exists>e. session_event_of g kwargs = Inl e"
proof (cases "map_of kwargs ''session_event''")
  case None
  then show ?thesis
    by (simp add: session_event_of_def getitem_def split: sum.splits)
next
  case (Some ind)
  with assms have "\<exists>e. subscript [(''new'', a), (''continue'', b), (''close'', c)] ind = Inl e"
    for a b c
    by (cases ind) (auto simp: getitem_def)
  with Some show ?thesis
    by (simp add: session_event_of_def getitem_def split: sum.splits)
qed

lemma build_message_unrecognized:
  assumes "get_default kwargs ''message_type'' (PyStr ''sms'') = PyStr ''ussd''"
    and "map_of kwargs ''session_event'' \<notin>
             {Some (PyStr ''new''), Some (PyStr ''continue''), Some (PyStr ''close'')}"
  shows "\<exists>e. build_message g kwargs mid = Inl e"
  using session_event_of_unrecognized [OF assms(2), of g] assms(1)
  by (auto simp: build_message_def Let_def split: sum.splits)

text \<open>
  C2 (amended). For an inbound USSD message whose session indicator is none of \<open>new\<close>,
  \<open>continue\<close>, \<open>close\<close> (or is missing), the call ends by raising an exception to its
  caller: no message is handed to the transport shell and nothing is logged.
\<close>

theorem C2_unrecognized_indicator_raises:
  assumes "get_default kwargs ''message_type'' (PyStr ''sms'') = PyStr ''ussd''"
    and "map_of kwargs ''session_event'' \<notin>
             {Some (PyStr ''new''), Some (PyStr ''continue''), Some (PyStr ''close'')}"
  shows "(\<exists>e. fst (handle_raw_inbound_message sh kwargs w) = Inl e)
         \<and> produced sh kwargs w = []
         \<and> err_log (snd (handle_raw_inbound_message sh kwargs w)) = err_log w"
proof -
  obtain e where e: "build_message (globals sh) kwargs (fst (uuid4_hex sh w)) = Inl e"
    using build_message_unrecognized [OF assms] by blast
  then show ?thesis
    by (simp add: produced_cases handle_raw_inbound_message_def uuid4_hex_def)
qed

theorem C2_unrecognized_indicator_raises_witness:
  "get_default (ussd_kwargs ''bogus'') ''message_type'' (PyStr ''sms'') = PyStr ''ussd''
   \<and> map_of (ussd_kwargs ''bogus'') ''session_event'' \<notin>
             {Some (PyStr ''new''), Some (PyStr ''continue''), Some (PyStr ''close'')}
   \<and> (\<exists>e. fst (handle_raw_inbound_message example_shell (ussd_kwargs ''bogus'') world0) = Inl e)
   \<and> produced example_shell (ussd_kwargs ''bogus'') world0 = []
   \<and> err_log (snd (handle_raw_inbound_message example_shell (ussd_kwargs ''bogus'') world0))
        = err_log world0"
proof -
  have a: "get_default (ussd_kwargs ''bogus'') ''message_type'' (PyStr ''sms'') = PyStr ''ussd''"
    by (simp add: ussd_kwargs_def get_default_def)
  have b: "map_of (ussd_kwargs ''bogus'') ''session_event'' \<notin>
             {Some (PyStr ''new''), Some (PyStr ''continue''), Some (PyStr ''close'')}"
    by (simp add: ussd_kwargs_def)
  from C2_unrecognized_indicator_raises [OF a b, of example_shell world0] a b
  show ?thesis by blast
qed

text \<open>
  C2 (as stated) fails: with the indicator \<open>bogus\<close> an exception escapes the call, in the
  module as it is (\<^verbatim>\<open>NameError\<close>) and also with \<^verbatim>\<open>TransportUserMessage\<close> imported
  (\<^verbatim>\<open>KeyError\<close>).
\<close>

theorem C2_exception_escapes_counterexample:
  "fst (handle_raw_inbound_message example_shell (ussd_kwargs ''bogus'') world0)
     = Inl (NameError ''TransportUserMessage'')
   \<and> fst (handle_raw_inbound_message
        (example_shell\<lparr>globals := globals_with_import\<rparr>)
        (ussd_kwargs ''bogus'') world0)
     = Inl (KeyError (PyStr ''bogus''))"
  by (simp add: handle_raw_inbound_message_def uuid4_hex_def example_shell_def
      build_message_def session_event_of_def lookup_global_def smpp_transport_globals_def
      module_names_def getitem_def get_default_def ussd_kwargs_def Let_def
      vumi_TransportUserMessage_def globals_with_import_def)

text \<open>
  C7 (amended). When the message has been built and handed over, a failure carried by
  the Deferred that \<^verbatim>\<open>publish_message\<close> returns is logged and the call returns a
  Deferred that has fired with \<^verbatim>\<open>None\<close>, so the caller sees no error; an exception
  that \<^verbatim>\<open>publish_message\<close> raises itself never reaches the errback: it leaves the
  call, and nothing is logged.
\<close>

theorem C7_publish_failure_by_deferred_or_raise:
  assumes "produced sh kwargs w = [message]"
  shows "(publish_message sh message = Inr (Errback f) \<longrightarrow>
            handle_raw_inbound_message sh kwargs w =
              (Inr (Fired PyNone),
               w\<lparr>drawn := Suc (drawn w), published := published w @ [message],
                 err_log := err_log w @ [f]\<rparr>))
       \<and> (publish_message sh message = Inl e \<longrightarrow>
            handle_raw_inbound_message sh kwargs w =
              (Inl e, w\<lparr>drawn := Suc (drawn w), published := published w @ [message]\<rparr>))"
proof -
  from assms have bm:
    "build_message (globals sh) kwargs (uuid_hex (uuid4_int (urandom sh (drawn w)))) = Inr message"
    by (simp add: produced_cases uuid4_hex_def split: sum.splits)
  have logged: "handle_raw_inbound_message sh kwargs w =
              (Inr (Fired PyNone),
               w\<lparr>drawn := Suc (drawn w), published := published w @ [message],
                 err_log := err_log w @ [f]\<rparr>)"
    if "publish_message sh message = Inr (Errback f)"
    by (simp add: handle_raw_inbound_message_def uuid4_hex_def bm that
        addErrback_log_err_def Let_def)
  have raised: "handle_raw_inbound_message sh kwargs w =
              (Inl e, w\<lparr>drawn := Suc (drawn w), published := published w @ [message]\<rparr>)"
    if "publish_message sh message = Inl e"
    by (simp add: handle_raw_inbound_message_def uuid4_hex_def bm that Let_def)
  from logged raised show ?thesis by blast
qed

theorem C7_publish_failure_by_deferred_or_raise_witness:
  "produced failing_shell sms_kwargs world0 = [sms_message]
   \<and> publish_message failing_shell sms_message = Inr (Errback ''not serializable'')
   \<and> handle_raw_inbound_message failing_shell sms_kwargs world0 =
        (Inr (Fired PyNone),
         \<lparr>drawn = 1, published = [sms_message], err_log = [''not serializable'']\<rparr>)
   \<and> produced raising_shell sms_kwargs world0 = [sms_message]
   \<and> publish_message raising_shell sms_message = Inl (Raised ''invalid message field'')
   \<and> handle_raw_inbound_message raising_shell sms_kwargs world0 =
        (Inl (Raised ''invalid message field''),
         \<lparr>drawn = 1, published = [sms_message], err_log = []\<rparr>)"
proof -
  have a: "produced failing_shell sms_kwargs world0 = [sms_message]"
    by (rule produced_sms_kwargs) (simp add: failing_shell_def example_shell_def)
  have b: "publish_message failing_shell sms_message = Inr (Errback ''not serializable'')"
    by (simp add: failing_shell_def)
  have c: "produced raising_shell sms_kwargs world0 = [sms_message]"
    by (rule produced_sms_kwargs) (simp add: raising_shell_def example_shell_def)
  have d: "publish_message raising_shell sms_message = Inl (Raised ''invalid message field'')"
    by (simp add: raising_shell_def)
  from C7_publish_failure_by_deferred_or_raise [OF a, of "''not serializable''"]
    C7_publish_failure_by_deferred_or_raise [OF c, of _ "Raised ''invalid message field''"]
    a b c d
  show ?thesis
    by (simp add: world0_def)
qed

text \<open>
  C7 (as stated) fails: when \<^verbatim>\<open>publish_message\<close> raises instead of returning a Deferred,
  the message has been handed over, the exception leaves the call and nothing is logged.
\<close>

theorem C7_raise_propagates_counterexample:
  "handle_raw_inbound_message raising_shell sms_kwargs world0 =
     (Inl (Raised ''invalid message field''),
      \<lparr>drawn = 1, published = [sms_message], err_log = []\<rparr>)"
  by (simp add: handle_raw_inbound_message_def uuid4_hex_def raising_shell_def
      example_shell_def world0_def build_message_def getitem_def get_default_def
      sms_kwargs_def sms_message_def Let_def)

lemma build_message_Inr:
  assumes "build_message g kwargs mid = Inr m"
  shows "map_of m ''transport_type'' = Some (get_default kwargs ''message_type'' (PyStr ''sms''))"
    and "(map_of m ''session_event'' \<noteq> None) =
           (get_default kwargs ''message_type'' (PyStr ''sms'') = PyStr ''ussd'')"
    and "map_of m ''message_id'' = Some (PyStr mid)"
  using assms
  by (auto simp: build_message_def set_session_info_def getitem_def Let_def update_conv'
      split: sum.splits if_splits option.splits)

text \<open>
  C8 (amended). Every message the call produces has as \<open>transport_type\<close> the
  \<open>message_type\<close> it was given, whatever that is, and \<open>sms\<close> when none was given; it
  carries a \<open>session_event\<close> field exactly when its \<open>transport_type\<close> is \<open>ussd\<close>.
\<close>

theorem C8_transport_type_as_given:
  "\<forall>m \<in> set (produced sh kwargs w).
      map_of m ''transport_type'' =
        Some (case map_of kwargs ''message_type'' of None \<Rightarrow> PyStr ''sms'' | Some t \<Rightarrow> t)
    \<and> ((map_of m ''session_event'' \<noteq> None) = (map_of m ''transport_type'' = Some (PyStr ''ussd'')))"
proof
  fix m assume "m \<in> set (produced sh kwargs w)"
  then have "build_message (globals sh) kwargs (fst (uuid4_hex sh w)) = Inr m"
    by (simp add: produced_cases split: sum.splits)
  from build_message_Inr(1,2) [OF this]
  show "map_of m ''transport_type'' =
        Some (case map_of kwargs ''message_type'' of None \<Rightarrow> PyStr ''sms'' | Some t \<Rightarrow> t)
    \<and> ((map_of m ''session_event'' \<noteq> None) = (map_of m ''transport_type'' = Some (PyStr ''ussd'')))"
    by (simp add: get_default_def)
qed

lemma produced_typed_kwargs:
  "urandom sh 0 = 0 \<Longrightarrow> t \<noteq> ''ussd'' \<Longrightarrow>
   produced sh (typed_kwargs t) world0 =
     [AList.update ''transport_type'' (PyStr t) sms_message]"
  by (simp add: produced_cases uuid4_hex_def world0_def build_message_def getitem_def
      get_default_def sms_kwargs_def typed_kwargs_def sms_message_def Let_def)

theorem C8_transport_type_as_given_witness:
  "produced example_shell (typed_kwargs ''sms'') world0 = [sms_message]
   \<and> map_of sms_message ''transport_type'' = Some (PyStr ''sms'')
   \<and> (map_of sms_message ''session_event'' \<noteq> None) = (map_of sms_message ''transport_type'' = Some (PyStr ''ussd''))"
proof -
  have p: "produced example_shell (typed_kwargs ''sms'') world0 = [sms_message]"
    by (simp add: produced_typed_kwargs example_shell_def) (simp add: sms_message_def)
  then have "sms_message \<in> set (produced example_shell (typed_kwargs ''sms'') world0)"
    by simp
  from C8_transport_type_as_given [rule_format, OF this] p show ?thesis
    by (simp add: typed_kwargs_def)
qed

text \<open>
  C8 (as stated) fails: given the message type \<open>mms\<close>, the call produces a message whose
  \<open>transport_type\<close> is \<open>mms\<close>, neither \<open>sms\<close> nor \<open>ussd\<close>.
\<close>

theorem C8_other_transport_type_counterexample:
  "map (\<lambda>m. map_of m ''transport_type'') (produced example_shell (typed_kwargs ''mms'') world0)
     = [Some (PyStr ''mms'')]"
  by (simp add: produced_typed_kwargs example_shell_def) (simp add: sms_message_def)

text \<open>
  C10. A USSD message without \<open>session_event\<close>: the module as it is raises
  \<^verbatim>\<open>NameError\<close>, where the key lookup the claim describes (reached once
  \<^verbatim>\<open>TransportUserMessage\<close> is imported) raises \<^verbatim>\<open>KeyError\<close>.
\<close>

theorem C10_missing_indicator_raises_NameError:
  "fst (handle_raw_inbound_message (sh\<lparr>globals := smpp_transport_globals\<rparr>)
          ussd_kwargs_no_indicator w) = Inl (NameError ''TransportUserMessage'')
   \<and> fst (handle_raw_inbound_message (sh\<lparr>globals := globals_with_import\<rparr>)
          ussd_kwargs_no_indicator w) = Inl (KeyError (PyStr ''session_event''))"
  by (simp add: handle_raw_inbound_message_def uuid4_hex_def
      build_message_def session_event_of_def lookup_global_def smpp_transport_globals_def
      module_names_def getitem_def get_default_def ussd_kwargs_no_indicator_def Let_def
      vumi_TransportUserMessage_def globals_with_import_def)

text \<open>A missing \<open>destination_addr\<close>, \<open>source_addr\<close> or \<open>short_message\<close> raises
  \<^verbatim>\<open>KeyError\<close> before anything is handed over.\<close>

lemma missing_required_key_raises:
  assumes "map_of kwargs ''destination_addr'' = None \<or> map_of kwargs ''source_addr'' = None
           \<or> map_of kwargs ''short_message'' = None"
  shows "produced sh kwargs w = []"
    and "fst (handle_raw_inbound_message sh kwargs w) \<in>
           {Inl (KeyError (PyStr ''destination_addr'')), Inl (KeyError (PyStr ''source_addr'')),
            Inl (KeyError (PyStr ''short_message''))}"
  using assms
  by (auto simp: produced_cases handle_raw_inbound_message_def uuid4_hex_def
      build_message_def getitem_def Let_def split: option.splits)

section \<open>The message identifier\<close>

lemma length_hex_of: "length (hex_of n v) = n"
  by (induction n arbitrary: v) simp_all

lemma hex_digit_mem: "d < 16 \<Longrightarrow> hex_digit d \<in> set ''0123456789abcdef''"
  unfolding hex_digit_def by (rule nth_mem) simp

lemma set_hex_of: "set (hex_of n v) \<subseteq> set ''0123456789abcdef''"
proof (induction n arbitrary: v)
  case 0
  show ?case by simp
next
  case (Suc n)
  have "hex_digit (v mod 16) \<in> set ''0123456789abcdef''"
    by (rule hex_digit_mem) simp
  with Suc [of "v div 16"] show ?case by simp
qed

lemma hex_digit_inj:
  assumes "a < 16" "b < 16" "hex_digit a = hex_digit b"
  shows "a = b"
proof -
  have "distinct ''0123456789abcdef''" by simp
  moreover have "a < length ''0123456789abcdef''" "b < length ''0123456789abcdef''"
    using assms by simp_all
  ultimately show ?thesis
    using assms(3) unfolding hex_digit_def by (simp only: nth_eq_iff_index_eq)
qed

lemma hex_of_inj:
  "v < 16 ^ n \<Longrightarrow> v' < 16 ^ n \<Longrightarrow> hex_of n v = hex_of n v' \<Longrightarrow> v = v'"
proof (induction n arbitrary: v v')
  case 0
  then show ?case by simp
next
  case (Suc n)
  from Suc.prems(3) have eq: "hex_of n (v div 16) = hex_of n (v' div 16)"
    and dg: "hex_digit (v mod 16) = hex_digit (v' mod 16)"
    by (simp_all add: length_hex_of)
  have "v div 16 < 16 ^ n" "v' div 16 < 16 ^ n"
    using Suc.prems(1,2) by (simp_all add: less_mult_imp_div_less mult.commute)
  from Suc.IH [OF this eq] have d: "v div 16 = v' div 16" .
  have m: "v mod 16 = v' mod 16"
    by (rule hex_digit_inj [OF _ _ dg]) simp_all
  have "v = 16 * (v div 16) + v mod 16" by simp
  also have "\<dots> = 16 * (v' div 16) + v' mod 16" by (simp only: d m)
  also have "\<dots> = v'" by simp
  finally show ?case .
qed

lemma uuid_hex_inj: "uuid_hex a = uuid_hex b \<Longrightarrow> a = b"
proof -
  assume h: "uuid_hex a = uuid_hex b"
  have p: "(16::nat) ^ 32 = 2 ^ 128" by simp
  have "unat a < 16 ^ 32" "unat b < 16 ^ 32"
    unfolding p using unsigned_less [of a, where ?'a = nat] unsigned_less [of b, where ?'a = nat]
    by simp_all
  from hex_of_inj [OF this] h have "unat a = unat b"
    by (simp add: uuid_hex_def)
  then show ?thesis by (simp add: word_unat_eq_iff)
qed

lemma length_uuid_hex: "length (uuid_hex u) = 32"
  by (simp add: uuid_hex_def length_hex_of)

lemma drawn_after: "drawn (snd (handle_raw_inbound_message sh kwargs w)) = Suc (drawn w)"
  by (simp add: handle_raw_inbound_message_def uuid4_hex_def addErrback_log_err_def Let_def
      split: sum.splits deferred.splits)


lemma uuid4_shape:
  "(((x AND NOT a) OR b) AND NOT c) OR d = (x AND NOT (a OR c)) OR ((b AND NOT c) OR d)"
  for x a b c d :: "'a::len word"
  by (simp add: bit.conj_disj_distrib2 and.assoc or.assoc)

lemma masked_cancel:
  fixes x y f k :: "'a::len word"
  assumes "f AND k = 0"
  shows "((x AND k) OR f = (y AND k) OR f) = (x AND k = y AND k)"
proof
  assume e: "(x AND k) OR f = (y AND k) OR f"
  have red: "((z AND k) OR f) AND k = z AND k" for z
  proof -
    have "((z AND k) OR f) AND k = ((z AND k) AND k) OR (f AND k)"
      by (simp only: bit.conj_disj_distrib2)
    also have "\<dots> = (z AND (k AND k)) OR 0"
      by (simp only: and.assoc assms)
    also have "\<dots> = z AND k"
      by (simp only: and.idem or.comm_neutral)
    finally show ?thesis .
  qed
  from e have "((x AND k) OR f) AND k = ((y AND k) OR f) AND k"
    by (simp only:)
  then show "x AND k = y AND k"
    by (simp only: red)
next
  assume "x AND k = y AND k"
  then show "(x AND k) OR f = (y AND k) OR f"
    by (simp only:)
qed

lemma fixed_disjoint_generic:
  fixes a b c d :: "'a::len word"
  assumes ba: "b AND a = b" and dc: "d AND c = d"
  shows "((b AND NOT c) OR d) AND NOT (a OR c) = 0"
proof -
  have "b AND NOT a = (b AND a) AND NOT a" by (simp only: ba)
  also have "\<dots> = b AND (a AND NOT a)" by (simp only: and.assoc)
  finally have 1: "b AND NOT a = 0" by simp
  have "d AND NOT c = (d AND c) AND NOT c" by (simp only: dc)
  also have "\<dots> = d AND (c AND NOT c)" by (simp only: and.assoc)
  finally have 2: "d AND NOT c = 0" by simp
  have 3: "(b AND NOT c) AND (NOT a AND NOT c) = (b AND NOT a) AND NOT c"
    by (simp add: ac_simps)
  have 4: "d AND (NOT a AND NOT c) = (d AND NOT c) AND NOT a"
    by (simp add: ac_simps)
  have "((b AND NOT c) OR d) AND NOT (a OR c)
      = ((b AND NOT c) AND (NOT a AND NOT c)) OR (d AND (NOT a AND NOT c))"
    by (simp only: bit.de_Morgan_disj bit.conj_disj_distrib2)
  also have "\<dots> = 0" by (simp only: 3 4 1 2) simp
  finally show ?thesis .
qed


lemma variant_bits_within: "push_bit 48 (0x8000::128 word) AND push_bit 48 0xc000 = push_bit 48 0x8000"
proof -
  have "(0x8000::128 word) AND 0xc000 = 0x8000" by simp
  then show ?thesis by (simp only: flip: push_bit_and)
qed

lemma version_bits_within: "push_bit 76 (4::128 word) AND push_bit 64 0xf000 = push_bit 76 4"
proof -
  have a: "push_bit 76 (4::128 word) = push_bit 64 (push_bit 12 4)"
    by (simp only: push_bit_push_bit) simp
  have b: "push_bit 12 (4::128 word) = 0x4000" by simp
  have c: "(0x4000::128 word) AND 0xf000 = 0x4000" by simp
  show ?thesis unfolding a b by (simp only: c flip: push_bit_and)
qed


lemma uuid4_int_eq_iff:
  "(uuid4_int r = uuid4_int r') = (r AND NOT overwritten_bits = r' AND NOT overwritten_bits)"
  unfolding uuid4_int_def overwritten_bits_def uuid4_shape
  by (rule masked_cancel) (rule fixed_disjoint_generic [OF variant_bits_within version_bits_within])

lemma produced_message_id:
  assumes "produced sh kwargs w = [m]"
  shows "map_of m ''message_id'' = Some (PyStr (uuid_hex (uuid4_int (urandom sh (drawn w)))))"
proof -
  from assms have "build_message (globals sh) kwargs (fst (uuid4_hex sh w)) = Inr m"
    by (simp add: produced_cases split: sum.splits)
  from build_message_Inr(3) [OF this] show ?thesis
    by (simp add: uuid4_hex_def)
qed

text \<open>
  C9 (amended). The \<open>message_id\<close> of a produced message is the 32 lower-case hexadecimal
  digits of a version-4 UUID made from the random block drawn for this call; it is the
  same whatever the PDU fields are; and the next call on identical input gets the same
  \<open>message_id\<close> exactly when the two random blocks agree outside the six bits that
  \<^verbatim>\<open>uuid4\<close> overwrites.
\<close>

theorem C9_message_id_from_random_block:
  assumes "produced sh kwargs w = [m]"
    and "produced sh kwargs' w = [m']"
    and "produced sh kwargs (snd (handle_raw_inbound_message sh kwargs w)) = [m2]"
  shows "(\<exists>mid. map_of m ''message_id'' = Some (PyStr mid) \<and> length mid = 32
            \<and> set mid \<subseteq> set ''0123456789abcdef'')
       \<and> map_of m' ''message_id'' = map_of m ''message_id''
       \<and> ((map_of m2 ''message_id'' = map_of m ''message_id'') =
            (urandom sh (Suc (drawn w)) AND NOT overwritten_bits
               = urandom sh (drawn w) AND NOT overwritten_bits))"
proof -
  note a = produced_message_id [OF assms(1)]
  note b = produced_message_id [OF assms(2)]
  note c = produced_message_id [OF assms(3), unfolded drawn_after]
  have 1: "\<exists>mid. map_of m ''message_id'' = Some (PyStr mid) \<and> length mid = 32
            \<and> set mid \<subseteq> set ''0123456789abcdef''"
    unfolding a using length_uuid_hex set_hex_of [of 32] by (simp add: uuid_hex_def)
  have 2: "map_of m' ''message_id'' = map_of m ''message_id''"
    by (simp only: a b)
  have "(map_of m2 ''message_id'' = map_of m ''message_id'') =
          (uuid_hex (uuid4_int (urandom sh (Suc (drawn w))))
             = uuid_hex (uuid4_int (urandom sh (drawn w))))"
    by (simp only: a c option.inject pyval.inject)
  also have "\<dots> = (uuid4_int (urandom sh (Suc (drawn w))) = uuid4_int (urandom sh (drawn w)))"
    by (auto dest: uuid_hex_inj)
  finally have 3: "(map_of m2 ''message_id'' = map_of m ''message_id'') =
            (urandom sh (Suc (drawn w)) AND NOT overwritten_bits
               = urandom sh (drawn w) AND NOT overwritten_bits)"
    by (simp only: uuid4_int_eq_iff)
  from 1 2 3 show ?thesis by blast
qed

lemma produced_sms_kwargs_at:
  "urandom sh (drawn w) = r \<Longrightarrow>
   produced sh sms_kwargs w = [AList.update ''message_id'' (PyStr (uuid_hex (uuid4_int r))) sms_message]"
  by (simp add: produced_cases uuid4_hex_def build_message_def getitem_def
      get_default_def sms_kwargs_def sms_message_def Let_def)

lemma message_id_update_same:
  "AList.update ''message_id'' (PyStr (uuid_hex (uuid4_int 0))) sms_message = sms_message"
  by (simp add: sms_message_def)

text \<open>
  C9 (as stated) fails: when the random source hands out the same block twice, two calls
  on identical input produce the same message, \<open>message_id\<close> included.
\<close>

theorem C9_same_block_same_id_counterexample:
  "produced example_shell sms_kwargs world0 = [sms_message]
   \<and> produced example_shell sms_kwargs
        (snd (handle_raw_inbound_message example_shell sms_kwargs world0)) = [sms_message]"
proof -
  have u: "urandom example_shell n = 0" for n
    by (simp add: example_shell_def)
  show ?thesis
    by (simp only: produced_sms_kwargs_at [OF u] message_id_update_same)
qed


lemma one_kept: "(1::128 word) AND NOT overwritten_bits \<noteq> 0 AND NOT overwritten_bits"
proof
  assume "(1::128 word) AND NOT overwritten_bits = 0 AND NOT overwritten_bits"
  then have "bit ((1::128 word) AND NOT overwritten_bits) 0 = bit (0 AND NOT overwritten_bits :: 128 word) 0"
    by (simp only:)
  then show False
    by (simp add: overwritten_bits_def bit_and_iff bit_not_iff bit_or_iff bit_push_bit_iff)
qed

theorem C9_message_id_from_random_block_witness:
  "produced counting_shell sms_kwargs world0 = [sms_message]
   \<and> produced counting_shell (typed_kwargs ''mms'') world0
         = [AList.update ''transport_type'' (PyStr ''mms'') sms_message]
   \<and> produced counting_shell sms_kwargs
         (snd (handle_raw_inbound_message counting_shell sms_kwargs world0))
         = [AList.update ''message_id'' (PyStr (uuid_hex (uuid4_int 1))) sms_message]
   \<and> (\<exists>mid. map_of sms_message ''message_id'' = Some (PyStr mid) \<and> length mid = 32
            \<and> set mid \<subseteq> set ''0123456789abcdef'')
   \<and> map_of (AList.update ''transport_type'' (PyStr ''mms'') sms_message) ''message_id''
         = map_of sms_message ''message_id''
   \<and> map_of (AList.update ''message_id'' (PyStr (uuid_hex (uuid4_int 1))) sms_message)
           ''message_id'' \<noteq> map_of sms_message ''message_id''"
proof -
  have u0: "urandom counting_shell (drawn world0) = 0"
    by (simp add: counting_shell_def world0_def)
  have u1: "urandom counting_shell
              (drawn (snd (handle_raw_inbound_message counting_shell sms_kwargs world0))) = 1"
    by (simp add: drawn_after counting_shell_def world0_def)
  have a: "produced counting_shell sms_kwargs world0 = [sms_message]"
    by (simp only: produced_sms_kwargs_at [OF u0] message_id_update_same)
  have b: "produced counting_shell (typed_kwargs ''mms'') world0
         = [AList.update ''transport_type'' (PyStr ''mms'') sms_message]"
    by (rule produced_typed_kwargs) (simp_all add: counting_shell_def)
  have c: "produced counting_shell sms_kwargs
         (snd (handle_raw_inbound_message counting_shell sms_kwargs world0))
         = [AList.update ''message_id'' (PyStr (uuid_hex (uuid4_int 1))) sms_message]"
    by (rule produced_sms_kwargs_at [OF u1])
  have d: "urandom counting_shell (Suc (drawn world0)) = 1" "urandom counting_shell (drawn world0) = 0"
    by (simp_all add: counting_shell_def world0_def)
  from C9_message_id_from_random_block [OF a b c] a b c one_kept show ?thesis
    by (simp only: d) blast
qed

section \<open>Properties of setup_transport\<close>


lemma allocate_frame:
  "k \<noteq> k' \<Longrightarrow> fst (allocate k' (snd (allocate k st))) = fst (allocate k' st)"
  by (simp add: allocate_def Let_def)






section \<open>Properties of teardown_transport\<close>

lemma stopped_ignores_event: "\<not> running s \<Longrightarrow> on_event s e = s"
  by simp

lemma stopped_ignores_events: "\<not> running s \<Longrightarrow> foldl on_event s es = s"
  by (induction es) (simp_all del: on_event.simps add: stopped_ignores_event)

lemma stopService_idem: "stopService (stopService s) = stopService s"
  by (simp add: stopService_def)

text \<open>
  C4. \<^verbatim>\<open>teardown_transport\<close> stops the reconnecting client service first and closes the
  store after; the stopped service has no attempt in progress and makes no further
  attempt, whatever happens later; and a second call changes neither the service nor
  the store connection.
\<close>

theorem C4_teardown_stops_then_closes:
  assumes "service t = Some s"
  shows "calls (teardown_transport t) = calls t @ [StopService, RedisClose]
       \<and> \<not> redis_connected (teardown_transport t)
       \<and> service (teardown_transport t) = Some (stopService s)
       \<and> link (stopService s) = NoLink
       \<and> attempts (foldl on_event (stopService s) es) = attempts s
       \<and> link (foldl on_event (stopService s) es) = NoLink
       \<and> service (teardown_transport (teardown_transport t)) = service (teardown_transport t)
       \<and> redis_connected (teardown_transport (teardown_transport t))
            = redis_connected (teardown_transport t)"
proof -
  have "\<not> running (stopService s)" by (simp add: stopService_def)
  from stopped_ignores_events [OF this, of es]
  show ?thesis using assms
    by (simp add: teardown_transport_def redis_close_def stopService_def Let_def)
qed

theorem C4_teardown_stops_then_closes_witness:
  "service started_transport = Some \<lparr>running = True, link = Attempting, attempts = 1\<rparr>
   \<and> calls (teardown_transport started_transport) = [StartService, StopService, RedisClose]
   \<and> attempts (foldl on_event (stopService \<lparr>running = True, link = Attempting, attempts = 1\<rparr>)
                 [ConnectFailed, RetryDue, ConnectSucceeded]) = 1
   \<and> teardown_transport (teardown_transport started_transport)
        = (teardown_transport started_transport)
             \<lparr>calls := [StartService, StopService, RedisClose, StopService, RedisClose]\<rparr>"
proof -
  have a: "service started_transport = Some \<lparr>running = True, link = Attempting, attempts = 1\<rparr>"
    by (simp add: started_transport_def start_service_def startService_def)
  have b: "calls started_transport = [StartService]"
    by (simp add: started_transport_def start_service_def)
  have c: "teardown_transport (teardown_transport started_transport)
        = (teardown_transport started_transport)
             \<lparr>calls := [StartService, StopService, RedisClose, StopService, RedisClose]\<rparr>"
    by (simp add: teardown_transport_def redis_close_def Let_def a b stopService_def)
  from C4_teardown_stops_then_closes [OF a, of "[ConnectFailed, RetryDue, ConnectSucceeded]"] a b c
  show ?thesis by simp
qed

section \<open>Properties of SmppTransceiverProtocol\<close>

text \<open>
  C6. On a connection that has just opened (the session is UNBOUND), the
  \<^verbatim>\<open>onConnectionMade\<close> of the protocol that the transport's factory builds runs the
  bind: the session goes to BINDING, the bind_transceiver PDU is sent and the timer
  runs. Every other method name resolves on that protocol as on the base factory's.
\<close>

theorem C6_bind_on_connection_made:
  assumes "protocol base ''bind'' = Some bind_session"
    and "state s = UNBOUND"
  shows "call_method (protocol (SmppTransportClientFactory base)) ''onConnectionMade'' s
           = Inr (s\<lparr>state := BINDING, sent := sent s @ [Bind_transceiver (bind_credentials s)],
                    bind_timer_running := True\<rparr>)
       \<and> (\<forall>n. n \<noteq> ''onConnectionMade'' \<longrightarrow>
              protocol (SmppTransportClientFactory base) n = protocol base n)"
  using assms
  by (simp add: SmppTransportClientFactory_def SmppTransceiverProtocol_def call_method_def
      bind_session_def)

theorem C6_bind_on_connection_made_witness:
  "protocol base_factory ''bind'' = Some bind_session
   \<and> state new_session = UNBOUND
   \<and> call_method (protocol (SmppTransportClientFactory base_factory)) ''onConnectionMade''
        new_session
        = Inr (new_session\<lparr>state := BINDING,
                 sent := [Bind_transceiver (bind_credentials new_session)],
                 bind_timer_running := True\<rparr>)
   \<and> protocol (SmppTransportClientFactory base_factory) ''bind'' = protocol base_factory ''bind''
   \<and> call_method (protocol base_factory) ''onConnectionMade'' new_session
        = Inl (AttributeError ''onConnectionMade'')"
proof -
  have a: "protocol base_factory ''bind'' = Some bind_session"
    by (simp add: base_factory_def)
  have b: "state new_session = UNBOUND"
    by (simp add: new_session_def)
  have c: "sent new_session = []"
    by (simp add: new_session_def)
  have d: "call_method (protocol base_factory) ''onConnectionMade'' new_session
        = Inl (AttributeError ''onConnectionMade'')"
    by (simp add: base_factory_def call_method_def)
  from C6_bind_on_connection_made [OF a b] a b c d show ?thesis
    by simp
qed

end
